theory Spec2Isabelle
  imports Main
begin

section \<open>The camera widget of \<^verbatim>\<open>src/components/CameraCapture.tsx\<close>\<close>

text \<open>
  The component keeps three pieces of React state (\<^verbatim>\<open>isStreaming\<close>, \<^verbatim>\<open>analyzing\<close>,
  \<^verbatim>\<open>error\<close>) and two refs (\<^verbatim>\<open>videoRef\<close>, \<^verbatim>\<open>canvasRef\<close>). Every handler of the file is
  embedded as a function from the state before the call to the state after it. What the
  browser answers (the result of \<^verbatim>\<open>getUserMedia\<close>, of \<^verbatim>\<open>play\<close>, of the analysis service)
  is an argument of the handler. A handler runs to completion: the interleaving of two
  pending asynchronous calls is not modelled. The component as a whole is the function
  \<open>fire\<close> below: it applies a handler to the event that starts it and then the renders
  that follow, with the effect of lines 113-136 run again when its dependency \<^verbatim>\<open>error\<close>
  has changed.
\<close>

subsection \<open>Browser objects\<close>

text \<open>
  A track is identified by a number; a \<^verbatim>\<open>MediaStream\<close> is the list of its tracks. The set
  \<open>live\<close> of the state holds the tracks whose \<^verbatim>\<open>readyState\<close> is \<^verbatim>\<open>"live"\<close>:
  \<^verbatim>\<open>getUserMedia\<close> adds the tracks of the stream it grants, \<^verbatim>\<open>track.stop()\<close> removes one.
\<close>

type_synonym track = nat

record MediaStream =
  getTracks :: "track list"

text \<open>
  A thrown value. \<open>ErrorObject name message\<close> is an instance of \<^verbatim>\<open>Error\<close> (a
  \<^verbatim>\<open>DOMException\<close> is one); \<open>NonError truthy\<close> is any other thrown value, which has no
  \<^verbatim>\<open>name\<close>, with its truthiness.
\<close>

datatype thrown = ErrorObject string string | NonError bool

fun err_name :: "thrown \<Rightarrow> string option" where
  "err_name (ErrorObject n m) = Some n"
| "err_name (NonError b) = None"

fun truthy :: "thrown \<Rightarrow> bool" where
  "truthy (ErrorObject n m) = True"
| "truthy (NonError b) = b"

definition new_Error :: "string \<Rightarrow> thrown" where
  "new_Error m = ErrorObject ''Error'' m"

datatype video_constraint = facingMode string | any_video

record MediaStreamConstraints =
  video :: video_constraint
  audio :: bool

text \<open>
  What one call of \<^verbatim>\<open>getUserMedia\<close> does: the promise resolves (with a stream, or with a
  value that fails the test \<^verbatim>\<open>if (stream)\<close>), or it rejects with a thrown value.
\<close>

datatype attempt = Resolved "MediaStream option" | Rejected thrown

record MediaDevices =
  getUserMedia :: "(MediaStreamConstraints \<Rightarrow> attempt) option"

record Navigator =
  mediaDevices :: "MediaDevices option"

record Location =
  protocol :: string
  hostname :: string

record Browser =
  navigator :: Navigator
  location :: Location

record HTMLVideoElement =
  srcObject :: "MediaStream option"
  onloadedmetadata :: bool
  videoWidth :: nat
  videoHeight :: nat

text \<open>\<open>context2d\<close> tells whether \<^verbatim>\<open>canvas.getContext('2d')\<close> returns a context.\<close>

record HTMLCanvasElement =
  context2d :: bool
  width :: nat
  height :: nat
  drawn :: bool

record AnalysisResult =
  id :: string
  timestamp :: string
  imageData :: string
  description :: string

datatype log_entry =
    Log_acquired MediaStreamConstraints
  | Warn_strategy_failed MediaStreamConstraints thrown
  | Error_access thrown
  | Error_play thrown

subsection \<open>The state of the component\<close>

text \<open>
  \<open>gum_calls\<close> is the trace of the calls of \<^verbatim>\<open>getUserMedia\<close> (the device opens that were
  attempted), \<open>console\<close> the trace of the console, \<open>completed\<close> the results handed to the
  \<^verbatim>\<open>onAnalysisComplete\<close> callback. \<open>timer\<close> tells whether the timeout of line 117 is
  pending, \<open>mounted\<close> whether the component is mounted (its effect is in force).
\<close>

record state =
  videoRef :: "HTMLVideoElement option"
  canvasRef :: "HTMLCanvasElement option"
  isStreaming :: bool
  analyzing :: bool
  error :: "string option"
  live :: "track set"
  gum_calls :: "MediaStreamConstraints list"
  console :: "log_entry list"
  completed :: "AnalysisResult list"
  timer :: bool
  mounted :: bool

subsection \<open>\<^verbatim>\<open>stopTracks\<close> (lines 17-22)\<close>

definition stopTracks :: "MediaStream option \<Rightarrow> state \<Rightarrow> state" where
  "stopTracks stream st =
     (case stream of
        None \<Rightarrow> st
      | Some s \<Rightarrow> st\<lparr>live := fold (\<lambda>t l. l - {t}) (getTracks s) (live st)\<rparr>)"

subsection \<open>\<^verbatim>\<open>startCamera\<close> (lines 24-102)\<close>

definition strategies :: "MediaStreamConstraints list" where
  "strategies =
     [\<lparr>video = facingMode ''environment'', audio = False\<rparr>,
      \<lparr>video = facingMode ''user'', audio = False\<rparr>,
      \<lparr>video = any_video, audio = False\<rparr>]"

text \<open>
  The loop of lines 48-59 over the strategies that are left. It returns the local
  variables \<^verbatim>\<open>stream\<close> and \<^verbatim>\<open>lastError\<close> and the state.
\<close>

fun try_strategies ::
  "(MediaStreamConstraints \<Rightarrow> attempt) \<Rightarrow> MediaStreamConstraints list \<Rightarrow> thrown option \<Rightarrow>
     state \<Rightarrow> MediaStream option \<times> thrown option \<times> state" where
  "try_strategies gum [] lastError st = (None, lastError, st)"
| "try_strategies gum (c # cs) lastError st =
     (let st1 = st\<lparr>gum_calls := gum_calls st @ [c]\<rparr> in
      case gum c of
        Resolved (Some s) \<Rightarrow>
          (Some s, lastError,
           st1\<lparr>live := live st1 \<union> set (getTracks s),
               console := console st1 @ [Log_acquired c]\<rparr>)
      | Resolved None \<Rightarrow> try_strategies gum cs lastError st1
      | Rejected e \<Rightarrow>
          try_strategies gum cs (Some e)
            (st1\<lparr>console := console st1 @ [Warn_strategy_failed c e]\<rparr>))"

text \<open>Line 63: \<^verbatim>\<open>lastError || new Error("No camera devices found.")\<close>.\<close>

definition thrown_value :: "thrown option \<Rightarrow> thrown" where
  "thrown_value lastError =
     (case lastError of
        None \<Rightarrow> new_Error ''No camera devices found.''
      | Some e \<Rightarrow> if truthy e then e else new_Error ''No camera devices found.'')"

text \<open>Lines 86-98: the message chosen from \<^verbatim>\<open>err.name\<close> and from \<^verbatim>\<open>location\<close>.\<close>

definition access_error_message :: "thrown \<Rightarrow> Location \<Rightarrow> string" where
  "access_error_message err loc =
     (if err_name err = Some ''NotAllowedError'' \<or> err_name err = Some ''PermissionDeniedError''
      then ''Camera permission denied. Please reset permissions for this site in your browser settings.''
      else if err_name err = Some ''NotFoundError'' \<or> err_name err = Some ''DevicesNotFoundError''
      then ''No camera device found on this device.''
      else if err_name err = Some ''NotReadableError'' \<or> err_name err = Some ''TrackStartError''
      then ''Camera is currently in use by another application. Please close other apps and try again.''
      else if err_name err = Some ''OverconstrainedError''
      then ''Camera constraints could not be satisfied.''
      else if protocol loc \<noteq> ''https:'' \<and> hostname loc \<noteq> ''localhost''
      then ''Camera access requires a secure HTTPS connection.''
      else ''Unable to access camera.'')"

text \<open>Lines 83-101: the \<^verbatim>\<open>catch\<close> block.\<close>

definition access_error :: "thrown \<Rightarrow> Location \<Rightarrow> state \<Rightarrow> state" where
  "access_error err loc st =
     st\<lparr>console := console st @ [Error_access err],
        error := Some (access_error_message err loc)\<rparr>"

text \<open>Lines 29-32: the browser has no camera API.\<close>

definition not_supported :: "state \<Rightarrow> state" where
  "not_supported st =
     st\<lparr>error := Some ''Camera API not supported. Please use a modern browser and ensure you are on HTTPS.''\<rparr>"

text \<open>
  The body of \<^verbatim>\<open>startCamera\<close>, with the list of line 39 as its first argument;
  \<open>startCamera\<close> is the function of the source, on the three strategies it declares.
\<close>

definition startCamera_with ::
  "MediaStreamConstraints list \<Rightarrow> Browser \<Rightarrow> state \<Rightarrow> state" where
  "startCamera_with strats browser st =
     (let st0 = st\<lparr>isStreaming := False, error := None\<rparr> in
      case mediaDevices (navigator browser) of
        None \<Rightarrow> not_supported st0
      | Some md \<Rightarrow>
         (case getUserMedia md of
            None \<Rightarrow> not_supported st0
          | Some gum \<Rightarrow>
             (case try_strategies gum strats None st0 of
                (None, lastError, st1) \<Rightarrow>
                  access_error (thrown_value lastError) (location browser) st1
              | (Some stream, lastError, st1) \<Rightarrow>
                 (case videoRef st1 of
                    Some v \<Rightarrow>
                      st1\<lparr>videoRef := Some (v\<lparr>srcObject := Some stream, onloadedmetadata := True\<rparr>)\<rparr>
                  | None \<Rightarrow> stopTracks (Some stream) st1))))"

definition startCamera :: "Browser \<Rightarrow> state \<Rightarrow> state" where
  "startCamera = startCamera_with strategies"

text \<open>
  Lines 70-78: the handler installed on \<^verbatim>\<open>onloadedmetadata\<close>. Its argument is what
  \<^verbatim>\<open>play()\<close> does: \<open>None\<close> when the promise resolves, \<open>Some e\<close> when it rejects with \<open>e\<close>.
  When \<^verbatim>\<open>videoRef.current\<close> is null, \<^verbatim>\<open>videoRef.current?.play()\<close> is \<^verbatim>\<open>undefined\<close> and
  nothing is thrown.
\<close>

definition loadedmetadata :: "thrown option \<Rightarrow> state \<Rightarrow> state" where
  "loadedmetadata play st =
     (case videoRef st of
        None \<Rightarrow> st\<lparr>isStreaming := True\<rparr>
      | Some v \<Rightarrow>
         (case play of
            None \<Rightarrow> st\<lparr>isStreaming := True\<rparr>
          | Some playError \<Rightarrow>
              st\<lparr>console := console st @ [Error_play playError],
                 error := Some ''Camera permission granted, but video preview failed to start.''\<rparr>))"

subsection \<open>\<^verbatim>\<open>stopCamera\<close> (lines 104-111)\<close>

definition stopCamera :: "state \<Rightarrow> state" where
  "stopCamera st =
     (case videoRef st of
        None \<Rightarrow> st
      | Some v \<Rightarrow>
         (case srcObject v of
            None \<Rightarrow> st
          | Some stream \<Rightarrow>
              (stopTracks (Some stream) st)
                \<lparr>videoRef := Some (v\<lparr>srcObject := None\<rparr>), isStreaming := False\<rparr>))"

subsection \<open>The visibility handler (lines 121-127)\<close>

text \<open>\<^verbatim>\<open>videoRef.current?.srcObject\<close> as a condition.\<close>

definition has_srcObject :: "state \<Rightarrow> bool" where
  "has_srcObject st =
     (case videoRef st of None \<Rightarrow> False | Some v \<Rightarrow> srcObject v \<noteq> None)"

text \<open>\<^verbatim>\<open>error\<close> as a condition: \<^verbatim>\<open>null\<close> and the empty string are falsy.\<close>

definition error_shown :: "state \<Rightarrow> bool" where
  "error_shown st = (case error st of None \<Rightarrow> False | Some msg \<Rightarrow> msg \<noteq> [])"

definition handleVisibilityChange :: "string \<Rightarrow> bool \<Rightarrow> Browser \<Rightarrow> state \<Rightarrow> state" where
  "handleVisibilityChange visibilityState isMounted browser st =
     (if visibilityState = ''visible''
      then (if isMounted \<and> \<not> has_srcObject st \<and> \<not> error_shown st
            then startCamera browser st else st)
      else st)"

subsection \<open>\<^verbatim>\<open>captureAndAnalyze\<close> (lines 138-170)\<close>

datatype analysis = Response string | Failure thrown

text \<open>
  The props of the component. \<open>onAnalysisComplete\<close> answers \<open>None\<close> when the callback
  returns and \<open>Some e\<close> when it throws \<open>e\<close> (the call stands inside the \<^verbatim>\<open>try\<close>).
\<close>

record Props =
  apiKey :: string
  onAnalysisComplete :: "AnalysisResult \<Rightarrow> thrown option"

text \<open>
  What the surroundings answer during one capture: the analysis service, the encoding
  of the canvas, \<^verbatim>\<open>crypto.randomUUID()\<close> and \<^verbatim>\<open>new Date().toISOString()\<close>.
\<close>

record Capture =
  analyzeImageWithGemini :: "string \<Rightarrow> string \<Rightarrow> analysis"
  toDataURL :: string
  randomUUID :: string
  toISOString :: string

text \<open>
  Lines 139-151, up to the \<^verbatim>\<open>await\<close>: the state, and the image that is sent when the
  canvas gave a context.
\<close>

definition capture_begin :: "Capture \<Rightarrow> state \<Rightarrow> state \<times> string option" where
  "capture_begin env st =
     (case videoRef st of
        None \<Rightarrow> (st, None)
      | Some video_el \<Rightarrow>
         (case canvasRef st of
            None \<Rightarrow> (st, None)
          | Some canvas_el \<Rightarrow>
             (let st1 = st\<lparr>analyzing := True\<rparr> in
              if context2d canvas_el
              then (st1\<lparr>canvasRef :=
                          Some (canvas_el\<lparr>width := videoWidth video_el, height := videoHeight video_el,
                                       drawn := True\<rparr>)\<rparr>,
                    Some (toDataURL env))
              else (st1, None))))"

text \<open>Line 165: the \<^verbatim>\<open>catch\<close> block.\<close>

definition capture_catch :: "thrown \<Rightarrow> state \<Rightarrow> state" where
  "capture_catch err st =
     st\<lparr>error := Some (case err of ErrorObject n m \<Rightarrow> m | NonError b \<Rightarrow> ''Analysis failed'')\<rparr>"

text \<open>Lines 153-168: the \<^verbatim>\<open>try\<close>, its \<^verbatim>\<open>catch\<close> and its \<^verbatim>\<open>finally\<close>.\<close>

definition capture_resume :: "Props \<Rightarrow> Capture \<Rightarrow> string \<Rightarrow> state \<Rightarrow> state" where
  "capture_resume props env img st =
     (let st2 =
        (case analyzeImageWithGemini env (apiKey props) img of
           Failure err \<Rightarrow> capture_catch err st
         | Response text \<Rightarrow>
            (let result = \<lparr>id = randomUUID env, timestamp = toISOString env,
                           imageData = img, description = text\<rparr>;
                 st1 = st\<lparr>completed := completed st @ [result]\<rparr>
             in case onAnalysisComplete props result of
                  None \<Rightarrow> st1
                | Some err \<Rightarrow> capture_catch err st1))
      in st2\<lparr>analyzing := False\<rparr>)"

definition captureAndAnalyze :: "Props \<Rightarrow> Capture \<Rightarrow> state \<Rightarrow> state" where
  "captureAndAnalyze props env st =
     (case capture_begin env st of
        (st1, None) \<Rightarrow> st1
      | (st1, Some img) \<Rightarrow> capture_resume props env img st1)"

text \<open>Line 228: \<^verbatim>\<open>disabled={!isStreaming || analyzing}\<close> on the capture button.\<close>

definition capture_disabled :: "state \<Rightarrow> bool" where
  "capture_disabled st = (\<not> isStreaming st \<or> analyzing st)"

subsection \<open>Renders and the effect of lines 113-136\<close>

text \<open>
  The effect depends on \<^verbatim>\<open>[startCamera, stopCamera, error]\<close> (line 136). Both callbacks
  are memoised with no dependency (lines 102 and 111), so the effect is run again exactly
  when a render sees another value of \<^verbatim>\<open>error\<close> than the render before. Its cleanup
  (lines 130-135) then clears the timer and calls \<open>stopCamera\<close>, and its body (lines
  114-128) arms a new timer. \<open>rerender prev st\<close> is the state after the render that
  follows a state update, \<open>prev\<close> being the \<^verbatim>\<open>error\<close> of the render before. State updates
  that no \<^verbatim>\<open>await\<close> separates are rendered together.
\<close>

definition rerender :: "string option \<Rightarrow> state \<Rightarrow> state" where
  "rerender prev st = (if error st = prev then st else (stopCamera st)\<lparr>timer := True\<rparr>)"

text \<open>The test of line 29 passes.\<close>

definition camera_api :: "Browser \<Rightarrow> bool" where
  "camera_api browser =
     (case mediaDevices (navigator browser) of
        None \<Rightarrow> False
      | Some md \<Rightarrow> (case getUserMedia md of None \<Rightarrow> False | Some gum \<Rightarrow> True))"

text \<open>
  A call of \<open>startCamera\<close> with its renders. Without the camera API the call returns
  before any \<^verbatim>\<open>await\<close>, and one render follows. With it, the updates of lines 25-26 are
  rendered while the first \<^verbatim>\<open>getUserMedia\<close> is awaited, and the rest of the call (on
  which lines 25-26 have no further effect) is rendered at its end.
\<close>

definition startCamera_rendered :: "string option \<Rightarrow> Browser \<Rightarrow> state \<Rightarrow> state" where
  "startCamera_rendered prev browser st =
     (if camera_api browser
      then rerender None
             (startCamera browser (rerender prev (st\<lparr>isStreaming := False, error := None\<rparr>)))
      else rerender prev (startCamera browser st))"

subsection \<open>The events the component answers\<close>

text \<open>
  \<open>fire e st\<close> is the state of the component after the event \<open>e\<close>, and \<open>None\<close> when the
  event cannot happen in \<open>st\<close>. Nothing happens to a component that is not mounted. The
  timer fires only while it is pending (line 118); the visibility listener calls
  \<open>startCamera\<close> under the test of lines 122-123; the retry button, rendered only under a
  shown error (line 184), runs \<^verbatim>\<open>setError(null); startCamera()\<close> (line 197); the metadata
  handler runs on a video element that has a stream and carries the handler; the capture
  button ignores clicks while it is disabled. At unmount React detaches both refs before
  it runs the cleanup of the effect, so that the \<open>stopCamera\<close> of line 133 finds
  \<^verbatim>\<open>videoRef.current\<close> null.
\<close>

datatype event =
    Timer_fired Browser
  | Visibility_changed string Browser
  | Retry_clicked Browser
  | Loaded_metadata "thrown option"
  | Capture_clicked Props Capture
  | Unmount

fun fire :: "event \<Rightarrow> state \<Rightarrow> state option" where
  "fire (Timer_fired browser) st =
     (if mounted st \<and> timer st
      then Some (startCamera_rendered (error st) browser (st\<lparr>timer := False\<rparr>))
      else None)"
| "fire (Visibility_changed v browser) st =
     (if mounted st
      then Some (if v = ''visible'' \<and> \<not> has_srcObject st \<and> \<not> error_shown st
                 then startCamera_rendered (error st) browser st else st)
      else None)"
| "fire (Retry_clicked browser) st =
     (if mounted st \<and> error_shown st
      then Some (startCamera_rendered (error st) browser (st\<lparr>error := None\<rparr>))
      else None)"
| "fire (Loaded_metadata play) st =
     (if mounted st
      then (case videoRef st of
              None \<Rightarrow> None
            | Some v \<Rightarrow>
                if onloadedmetadata v \<and> srcObject v \<noteq> None
                then Some (rerender (error st) (loadedmetadata play st)) else None)
      else None)"
| "fire (Capture_clicked props env) st =
     (if mounted st \<and> \<not> capture_disabled st
      then Some (rerender (error st) (captureAndAnalyze props env st))
      else None)"
| "fire Unmount st =
     (if mounted st
      then Some ((stopCamera (st\<lparr>videoRef := None, canvasRef := None\<rparr>))
                   \<lparr>timer := False, mounted := False\<rparr>)
      else None)"

inductive steps :: "state \<Rightarrow> state \<Rightarrow> bool" where
  steps_refl: "steps st st"
| steps_fire: "steps st st1 \<Longrightarrow> fire e st1 = Some st2 \<Longrightarrow> steps st st2"

text \<open>The events of a list, one after the other.\<close>

fun run :: "event list \<Rightarrow> state \<Rightarrow> state option" where
  "run [] st = Some st"
| "run (e # es) st = (case fire e st of None \<Rightarrow> None | Some st1 \<Rightarrow> run es st1)"

subsection \<open>Ownership of the live tracks\<close>

text \<open>The tracks of the stream attached to the video element.\<close>

definition attached_tracks :: "state \<Rightarrow> track set" where
  "attached_tracks st =
     (case videoRef st of
        None \<Rightarrow> {}
      | Some v \<Rightarrow> (case srcObject v of None \<Rightarrow> {} | Some s \<Rightarrow> set (getTracks s)))"

text \<open>Every live track belongs to the attached stream: no other stream is live.\<close>

definition one_owner :: "state \<Rightarrow> bool" where
  "one_owner st = (live st \<subseteq> attached_tracks st)"

text \<open>One of the four comparisons of lines 88-95 holds for \<^verbatim>\<open>err.name\<close>.\<close>

definition names_a_cause :: "thrown \<Rightarrow> bool" where
  "names_a_cause err =
     (err_name err \<in> Some ` {''NotAllowedError'', ''PermissionDeniedError'', ''NotFoundError'',
        ''DevicesNotFoundError'', ''NotReadableError'', ''TrackStartError'',
        ''OverconstrainedError''})"

subsection \<open>Concrete inputs\<close>

definition stream_a :: MediaStream where
  "stream_a = \<lparr>getTracks = [0]\<rparr>"

definition stream_b :: MediaStream where
  "stream_b = \<lparr>getTracks = [1]\<rparr>"

definition video0 :: HTMLVideoElement where
  "video0 = \<lparr>srcObject = None, onloadedmetadata = False, videoWidth = 640, videoHeight = 480\<rparr>"

definition canvas0 :: HTMLCanvasElement where
  "canvas0 = \<lparr>context2d = True, width = 300, height = 150, drawn = False\<rparr>"

text \<open>
  The state after the first render and the first run of the effect: lines 13-15, both
  refs attached, the timer of line 117 pending.
\<close>

definition initial_state :: state where
  "initial_state =
     \<lparr>videoRef = Some video0, canvasRef = Some canvas0, isStreaming = False,
      analyzing = False, error = None, live = {}, gum_calls = [], console = [],
      completed = [], timer = True, mounted = True\<rparr>"

definition browser_with :: "(MediaStreamConstraints \<Rightarrow> attempt) \<Rightarrow> string \<Rightarrow> string \<Rightarrow> Browser" where
  "browser_with gum proto host =
     \<lparr>navigator = \<lparr>mediaDevices = Some \<lparr>getUserMedia = Some gum\<rparr>\<rparr>,
      location = \<lparr>protocol = proto, hostname = host\<rparr>\<rparr>"

definition no_camera_api :: Browser where
  "no_camera_api =
     \<lparr>navigator = \<lparr>mediaDevices = None\<rparr>,
      location = \<lparr>protocol = ''https:'', hostname = ''example.org''\<rparr>\<rparr>"

definition grants :: "MediaStream \<Rightarrow> MediaStreamConstraints \<Rightarrow> attempt" where
  "grants s c = Resolved (Some s)"

definition rejects :: "string \<Rightarrow> MediaStreamConstraints \<Rightarrow> attempt" where
  "rejects n c = Rejected (ErrorObject n [])"

definition denied_then_not_found :: "MediaStreamConstraints \<Rightarrow> attempt" where
  "denied_then_not_found c =
     (if video c = any_video then Rejected (ErrorObject ''NotFoundError'' [])
      else Rejected (ErrorObject ''NotAllowedError'' []))"

definition user_only :: "MediaStreamConstraints \<Rightarrow> attempt" where
  "user_only c =
     (if video c = facingMode ''user'' then Resolved (Some stream_b)
      else Rejected (ErrorObject ''OverconstrainedError'' []))"

text \<open>The state after one acquisition whose first strategy is granted and whose playback starts.\<close>

definition streaming_a :: state where
  "streaming_a =
     loadedmetadata None
       (startCamera (browser_with (grants stream_a) ''https:'' ''example.org'') initial_state)"



definition canvas_without_context :: HTMLCanvasElement where
  "canvas_without_context = canvas0\<lparr>context2d := False\<rparr>"

definition props0 :: Props where
  "props0 = \<lparr>apiKey = ''key'', onAnalysisComplete = (\<lambda>r. None)\<rparr>"

definition failing_service :: Capture where
  "failing_service =
     \<lparr>analyzeImageWithGemini = (\<lambda>k i. Failure (ErrorObject ''Error'' ''quota exceeded'')),
      toDataURL = ''data:image/jpeg;base64,AAAA'', randomUUID = ''u1'',
      toISOString = ''2026-01-01T00:00:00.000Z''\<rparr>"

definition answering_service :: Capture where
  "answering_service =
     \<lparr>analyzeImageWithGemini = (\<lambda>k i. Response ''a desk''),
      toDataURL = ''data:image/jpeg;base64,AAAA'', randomUUID = ''u1'',
      toISOString = ''2026-01-01T00:00:00.000Z''\<rparr>"

definition browser_a :: Browser where
  "browser_a = browser_with (grants stream_a) ''https:'' ''example.org''"

definition browser_b :: Browser where
  "browser_b = browser_with (grants stream_b) ''https:'' ''example.org''"

definition browser_denied :: Browser where
  "browser_denied = browser_with (rejects ''NotAllowedError'') ''https:'' ''example.org''"

section \<open>Properties\<close>

subsection \<open>Auxiliary facts\<close>

lemma fold_stop: "fold (\<lambda>t l. l - {t}) ts l = l - set ts"
  by (induction ts arbitrary: l) auto

lemma try_strategies_frame:
  "try_strategies gum cs le st = (r, le', st') \<Longrightarrow>
     videoRef st' = videoRef st \<and> canvasRef st' = canvasRef st \<and>
     isStreaming st' = isStreaming st \<and> analyzing st' = analyzing st \<and>
     error st' = error st \<and> completed st' = completed st"
  by (induction cs arbitrary: le st) (auto simp: Let_def split: attempt.splits option.splits)

lemma try_strategies_live:
  "try_strategies gum cs le st = (r, le', st') \<Longrightarrow>
     live st' = live st \<union> (case r of None \<Rightarrow> {} | Some s \<Rightarrow> set (getTracks s))"
  by (induction cs arbitrary: le st) (auto simp: Let_def split: attempt.splits option.splits)

lemma try_strategies_all_rejected:
  "cs \<noteq> [] \<Longrightarrow> \<forall>c\<in>set cs. \<exists>e. gum c = Rejected e \<Longrightarrow> gum (last cs) = Rejected e \<Longrightarrow>
     \<exists>st'. try_strategies gum cs le st = (None, Some e, st') \<and>
       gum_calls st' = gum_calls st @ cs"
proof (induction cs arbitrary: le st)
  case Nil
  then show ?case by simp
next
  case (Cons c cs)
  from Cons.prems(2) obtain e0 where e0: "gum c = Rejected e0" by auto
  show ?case
  proof (cases "cs = []")
    case True
    with Cons.prems e0 show ?thesis by (simp add: Let_def)
  next
    case False
    let ?st1 = "st\<lparr>gum_calls := gum_calls st @ [c],
                   console := console st @ [Warn_strategy_failed c e0]\<rparr>"
    from False Cons.prems have "\<forall>c\<in>set cs. \<exists>e. gum c = Rejected e" "gum (last cs) = Rejected e"
      by auto
    from Cons.IH [OF False this, of "Some e0" ?st1]
    show ?thesis using e0 by (auto simp: Let_def)
  qed
qed

lemma try_strategies_first_success:
  "\<forall>x\<in>set pre. \<forall>s. gum x \<noteq> Resolved (Some s) \<Longrightarrow> gum c = Resolved (Some s) \<Longrightarrow>
     \<exists>le' st'. try_strategies gum (pre @ c # post) le st = (Some s, le', st') \<and>
       gum_calls st' = gum_calls st @ pre @ [c]"
proof (induction pre arbitrary: le st)
  case Nil
  then show ?case by (simp add: Let_def)
next
  case (Cons x pre)
  have IH: "\<exists>le' st'. try_strategies gum (pre @ c # post) l t = (Some s, le', st') \<and>
              gum_calls st' = gum_calls t @ pre @ [c]" for l t
    using Cons.IH Cons.prems by auto
  show ?case
  proof (cases "gum x")
    case (Resolved r)
    with Cons.prems have r: "r = None" by (cases r) auto
    from IH [of le "st\<lparr>gum_calls := gum_calls st @ [x]\<rparr>"]
    show ?thesis using Resolved r by (auto simp: Let_def)
  next
    case (Rejected e)
    from IH [of "Some e" "st\<lparr>gum_calls := gum_calls st @ [x],
                   console := console st @ [Warn_strategy_failed x e]\<rparr>"]
    show ?thesis using Rejected by (auto simp: Let_def)
  qed
qed

lemma startCamera_with_isStreaming: "isStreaming (startCamera_with strats browser st) = False"
  by (auto simp: startCamera_with_def not_supported_def access_error_def stopTracks_def Let_def
      split: option.splits prod.splits dest: try_strategies_frame)

lemma startCamera_with_analyzing: "analyzing (startCamera_with strats browser st) = analyzing st"
  by (auto simp: startCamera_with_def not_supported_def access_error_def stopTracks_def Let_def
      split: option.splits prod.splits dest: try_strategies_frame)

lemma startCamera_with_mounted:
  "(videoRef (startCamera_with strats browser st) = None) = (videoRef st = None)"
  by (auto simp: startCamera_with_def not_supported_def access_error_def stopTracks_def Let_def
      split: option.splits prod.splits dest: try_strategies_frame)

lemma startCamera_with_try:
  assumes "mediaDevices (navigator browser) = Some md" and "getUserMedia md = Some gum"
  shows "startCamera_with strats browser st =
     (case try_strategies gum strats None (st\<lparr>isStreaming := False, error := None\<rparr>) of
        (None, lastError, st1) \<Rightarrow> access_error (thrown_value lastError) (location browser) st1
      | (Some stream, lastError, st1) \<Rightarrow>
         (case videoRef st1 of
            Some v \<Rightarrow>
              st1\<lparr>videoRef := Some (v\<lparr>srcObject := Some stream, onloadedmetadata := True\<rparr>)\<rparr>
          | None \<Rightarrow> stopTracks (Some stream) st1))"
  using assms by (simp add: startCamera_with_def)

lemma message_of_thrown_value:
  "access_error_message (thrown_value (Some e)) loc = access_error_message e loc"
  by (cases e) (simp_all add: thrown_value_def access_error_message_def new_Error_def)

lemma streaming_a_eq:
  "streaming_a =
     \<lparr>videoRef = Some (video0\<lparr>srcObject := Some stream_a, onloadedmetadata := True\<rparr>),
      canvasRef = Some canvas0, isStreaming = True, analyzing = False, error = None,
      live = {0}, gum_calls = [\<lparr>video = facingMode ''environment'', audio = False\<rparr>],
      console = [Log_acquired \<lparr>video = facingMode ''environment'', audio = False\<rparr>],
      completed = [], timer = True, mounted = True\<rparr>"
  by (simp add: streaming_a_def startCamera_def startCamera_with_def browser_with_def
      grants_def strategies_def initial_state_def loadedmetadata_def stream_a_def)

lemma captureAndAnalyze_frame:
  "videoRef (captureAndAnalyze props env st) = videoRef st \<and>
   live (captureAndAnalyze props env st) = live st \<and>
   isStreaming (captureAndAnalyze props env st) = isStreaming st \<and>
   gum_calls (captureAndAnalyze props env st) = gum_calls st"
  by (simp add: captureAndAnalyze_def capture_begin_def capture_resume_def capture_catch_def
      Let_def split: option.splits analysis.splits)

lemma stopCamera_analyzing: "analyzing (stopCamera st) = analyzing st"
  by (simp add: stopCamera_def stopTracks_def split: option.splits)

lemma loadedmetadata_analyzing: "analyzing (loadedmetadata play st) = analyzing st"
  by (simp add: loadedmetadata_def split: option.splits)

lemma handleVisibilityChange_calls:
  "handleVisibilityChange v True browser st =
     (if v = ''visible'' \<and> \<not> has_srcObject st \<and> \<not> error_shown st
      then startCamera browser st else st)"
  by (simp add: handleVisibilityChange_def)

lemma rerender_analyzing: "analyzing (rerender prev st) = analyzing st"
  by (simp add: rerender_def stopCamera_analyzing)

lemma startCamera_rendered_analyzing:
  "analyzing (startCamera_rendered prev browser st) = analyzing st"
  by (simp add: startCamera_rendered_def rerender_analyzing startCamera_def
      startCamera_with_analyzing)

lemma fire_keeps_analyzing:
  assumes "fire e st = Some st'" and "analyzing st"
  shows "analyzing st'"
proof (cases e)
  case (Timer_fired browser)
  with assms show ?thesis by (auto simp: startCamera_rendered_analyzing split: if_splits)
next
  case (Visibility_changed v browser)
  with assms show ?thesis by (auto simp: startCamera_rendered_analyzing split: if_splits)
next
  case (Retry_clicked browser)
  with assms show ?thesis by (auto simp: startCamera_rendered_analyzing split: if_splits)
next
  case (Loaded_metadata play)
  with assms show ?thesis
    by (auto simp: rerender_analyzing loadedmetadata_analyzing split: option.splits if_splits)
next
  case (Capture_clicked props env)
  with assms show ?thesis by (simp add: capture_disabled_def)
next
  case Unmount
  with assms show ?thesis by (auto simp: stopCamera_analyzing split: if_splits)
qed

lemma steps_keep_analyzing: "steps st st' \<Longrightarrow> analyzing st \<Longrightarrow> analyzing st'"
  by (induction rule: steps.induct) (auto dest: fire_keeps_analyzing)

lemma fire_steps: "steps st1 st2 \<Longrightarrow> fire e st = Some st1 \<Longrightarrow> steps st st2"
proof (induction rule: steps.induct)
  case (steps_refl st1)
  then show ?case by (rule steps.steps_fire [OF steps.steps_refl])
next
  case (steps_fire st1 st2 e' st3)
  then show ?case by (blast intro: steps.steps_fire)
qed

lemma run_steps: "run es st = Some st' \<Longrightarrow> steps st st'"
proof (induction es arbitrary: st)
  case Nil
  then show ?case by (simp add: steps_refl)
next
  case (Cons e es)
  then show ?case by (auto split: option.splits intro: fire_steps)
qed

text \<open>Definitions that evaluate a run of events on the concrete inputs.\<close>

lemmas run_defs = initial_state_def video0_def has_srcObject_def error_shown_def
  startCamera_rendered_def camera_api_def browser_a_def browser_b_def browser_denied_def
  browser_with_def rerender_def startCamera_def startCamera_with_def grants_def rejects_def
  strategies_def stopCamera_def stopTracks_def access_error_def access_error_message_def
  thrown_value_def loadedmetadata_def stream_a_def stream_b_def attached_tracks_def
  one_owner_def Let_def

lemmas cap_defs = captureAndAnalyze_def capture_begin_def capture_resume_def capture_catch_def
  capture_disabled_def props0_def failing_service_def canvas0_def

text \<open>What \<open>captureAndAnalyze\<close> writes by itself when the analysis fails.\<close>

lemma captureAndAnalyze_catches_failure:
  "videoRef (captureAndAnalyze props env st) = videoRef st \<and>
   live (captureAndAnalyze props env st) = live st \<and>
   isStreaming (captureAndAnalyze props env st) = isStreaming st \<and>
   (\<forall>v c err. videoRef st = Some v \<and> canvasRef st = Some c \<and> context2d c \<and>
        analyzeImageWithGemini env (apiKey props) (toDataURL env) = Failure err \<longrightarrow>
      error (captureAndAnalyze props env st) =
        Some (case err of ErrorObject n m \<Rightarrow> m | NonError b \<Rightarrow> ''Analysis failed'') \<and>
      \<not> analyzing (captureAndAnalyze props env st) \<and>
      completed (captureAndAnalyze props env st) = completed st)"
proof -
  have "error (captureAndAnalyze props env st) =
        Some (case err of ErrorObject n m \<Rightarrow> m | NonError b \<Rightarrow> ''Analysis failed'') \<and>
      \<not> analyzing (captureAndAnalyze props env st) \<and>
      completed (captureAndAnalyze props env st) = completed st"
    if "videoRef st = Some v" "canvasRef st = Some c" "context2d c"
      "analyzeImageWithGemini env (apiKey props) (toDataURL env) = Failure err" for v c err
    using that
    by (simp add: captureAndAnalyze_def capture_begin_def capture_resume_def capture_catch_def)
  then show ?thesis using captureAndAnalyze_frame [of props env st] by blast
qed

text \<open>
  At unmount the refs are detached before the cleanup runs: the stream that was attached
  stays live.
\<close>

lemma unmount_releases_nothing:
  "map_option live (run [Timer_fired browser_a, Loaded_metadata None, Unmount] initial_state) =
     Some {0}"
  by (simp add: run_defs)

subsection \<open>Claim C1: one live stream at a time\<close>

text \<open>
  C1 does not hold of the code. \<open>startCamera\<close> releases nothing: it holds no call of
  \<open>stopTracks\<close> or \<open>stopCamera\<close> for a stream that is already attached, and line 67
  overwrites \<^verbatim>\<open>srcObject\<close>. The visibility listener calls it only when no stream is
  attached (line 123), but the timer (line 118) and the retry button (line 197) call it
  unguarded, and a change of \<^verbatim>\<open>error\<close> arms the timer again. Two runs of the component
  from its initial state end with the tracks of two streams live, the first stream no
  longer attached. In the first the page becomes visible before the timer of the mount
  fires. In the second a denied acquisition is retried, and the \<^verbatim>\<open>setError(null)\<close> of
  the retry arms a timer that acquires once more. The last two lines are the same fact
  for one call of \<open>startCamera\<close> in a streaming state.
\<close>

theorem unguarded_acquisition_leaks_first_stream:
  "map_option live (run 
      [Visibility_changed ''visible'' browser_a, Timer_fired browser_b] initial_state) = Some {0, 1} \<and>
   map_option attached_tracks (run 
      [Visibility_changed ''visible'' browser_a, Timer_fired browser_b] initial_state) = Some {1} \<and>
   map_option one_owner (run 
      [Visibility_changed ''visible'' browser_a, Timer_fired browser_b] initial_state) = Some False \<and>
   map_option live (run 
      [Timer_fired browser_denied, Retry_clicked browser_a, Timer_fired browser_b] initial_state) = Some {0, 1} \<and>
   map_option attached_tracks (run 
      [Timer_fired browser_denied, Retry_clicked browser_a, Timer_fired browser_b] initial_state) = Some {1} \<and>
   map_option one_owner (run 
      [Timer_fired browser_denied, Retry_clicked browser_a, Timer_fired browser_b] initial_state) = Some False \<and>
   live (startCamera browser_b streaming_a) = {0, 1} \<and>
   attached_tracks (startCamera browser_b streaming_a) = {1}"
proof -
  have v: "map_option live (run 
      [Visibility_changed ''visible'' browser_a, Timer_fired browser_b] initial_state) = Some {0, 1}"
    by (auto simp: run_defs)
  have v': "map_option attached_tracks (run 
      [Visibility_changed ''visible'' browser_a, Timer_fired browser_b] initial_state) = Some {1}"
    "map_option one_owner (run 
      [Visibility_changed ''visible'' browser_a, Timer_fired browser_b] initial_state) = Some False"
    by (simp_all add: run_defs)
  have r: "map_option live (run 
      [Timer_fired browser_denied, Retry_clicked browser_a, Timer_fired browser_b] initial_state) = Some {0, 1}"
    by (auto simp: run_defs)
  have r': "map_option attached_tracks (run 
      [Timer_fired browser_denied, Retry_clicked browser_a, Timer_fired browser_b] initial_state) = Some {1}"
    "map_option one_owner (run 
      [Timer_fired browser_denied, Retry_clicked browser_a, Timer_fired browser_b] initial_state) = Some False"
    by (simp_all add: run_defs)
  have f: "live (startCamera browser_b streaming_a) = {0, 1}"
    by (auto simp: streaming_a_eq run_defs)
  have f': "attached_tracks (startCamera browser_b streaming_a) = {1}"
    by (simp add: streaming_a_eq run_defs)
  from v v' r r' f f' show ?thesis by simp
qed

subsection \<open>Claim C2: every strategy fails\<close>

text \<open>
  C2. With the camera API present and a non-empty list of strategies whose calls of
  \<^verbatim>\<open>getUserMedia\<close> all reject, the message shown is the one the \<^verbatim>\<open>catch\<close> block chooses
  for the rejection of the last strategy alone, whatever the earlier ones rejected with;
  every strategy was attempted, no stream is attached or opened. In particular, when the
  last rejection is a permission denial, the message is the permission-denied one.
\<close>

theorem all_strategies_fail_last_error_classified:
  assumes "mediaDevices (navigator browser) = Some md" and "getUserMedia md = Some gum"
    and "strats \<noteq> []"
    and "\<forall>c\<in>set strats. \<exists>e'. gum c = Rejected e'"
    and "gum (last strats) = Rejected e"
  shows "error (startCamera_with strats browser st) =
           Some (access_error_message e (location browser)) \<and>
         gum_calls (startCamera_with strats browser st) = gum_calls st @ strats \<and>
         videoRef (startCamera_with strats browser st) = videoRef st \<and>
         live (startCamera_with strats browser st) = live st \<and>
         \<not> isStreaming (startCamera_with strats browser st) \<and>
         (err_name e = Some ''NotAllowedError'' \<or> err_name e = Some ''PermissionDeniedError'' \<longrightarrow>
            error (startCamera_with strats browser st) =
              Some ''Camera permission denied. Please reset permissions for this site in your browser settings.'')"
proof -
  let ?st0 = "st\<lparr>isStreaming := False, error := None\<rparr>"
  from try_strategies_all_rejected [OF assms(3,4,5), of None ?st0]
  obtain st1 where t: "try_strategies gum strats None ?st0 = (None, Some e, st1)"
    and calls: "gum_calls st1 = gum_calls ?st0 @ strats" by blast
  from try_strategies_frame [OF t] try_strategies_live [OF t]
  have frame: "videoRef st1 = videoRef st" "live st1 = live st" "isStreaming st1 = False"
    by simp_all
  have post: "startCamera_with strats browser st =
        access_error (thrown_value (Some e)) (location browser) st1"
    using startCamera_with_try [OF assms(1,2), of strats st] t by simp
  have msg: "error (startCamera_with strats browser st) =
        Some (access_error_message e (location browser))"
    by (simp add: post access_error_def message_of_thrown_value)
  moreover have "err_name e = Some ''NotAllowedError'' \<or> err_name e = Some ''PermissionDeniedError'' \<Longrightarrow>
      access_error_message e (location browser) =
        ''Camera permission denied. Please reset permissions for this site in your browser settings.''"
    by (simp add: access_error_message_def)
  ultimately show ?thesis
    using calls frame by (simp add: post access_error_def)
qed

theorem all_strategies_fail_last_error_classified_witness:
  "error (startCamera (browser_with (rejects ''NotAllowedError'') ''https:'' ''example.org'')
       initial_state) =
     Some ''Camera permission denied. Please reset permissions for this site in your browser settings.'' \<and>
   gum_calls (startCamera (browser_with (rejects ''NotAllowedError'') ''https:'' ''example.org'')
       initial_state) = strategies \<and>
   error (startCamera (browser_with denied_then_not_found ''https:'' ''example.org'')
       initial_state) =
     Some ''No camera device found on this device.''"
  using all_strategies_fail_last_error_classified
      [of "browser_with (rejects ''NotAllowedError'') ''https:'' ''example.org''"
          "\<lparr>getUserMedia = Some (rejects ''NotAllowedError'')\<rparr>" "rejects ''NotAllowedError''"
          strategies "ErrorObject ''NotAllowedError'' []" initial_state]
    all_strategies_fail_last_error_classified
      [of "browser_with denied_then_not_found ''https:'' ''example.org''"
          "\<lparr>getUserMedia = Some denied_then_not_found\<rparr>" denied_then_not_found
          strategies "ErrorObject ''NotFoundError'' []" initial_state]
  by (simp add: browser_with_def rejects_def denied_then_not_found_def strategies_def
      startCamera_def initial_state_def access_error_message_def)

subsection \<open>Claim C3: the first success ends the loop\<close>

text \<open>
  C3. With the camera API present, let \<open>c\<close> be the first strategy of the list for which
  \<^verbatim>\<open>getUserMedia\<close> resolves with a stream \<open>s\<close>. Then \<^verbatim>\<open>getUserMedia\<close> is called for the
  strategies before \<open>c\<close> and for \<open>c\<close>, and for no later one; no error is shown; and with
  the video element mounted, \<open>s\<close> is attached to it, its tracks live and the metadata
  handler installed. (With no video element, lines 79-82 stop the tracks of \<open>s\<close>.)
\<close>

theorem first_success_stops_iteration:
  assumes "mediaDevices (navigator browser) = Some md" and "getUserMedia md = Some gum"
    and "strats = pre @ c # post"
    and "\<forall>x\<in>set pre. \<forall>s'. gum x \<noteq> Resolved (Some s')"
    and "gum c = Resolved (Some s)"
  shows "gum_calls (startCamera_with strats browser st) = gum_calls st @ pre @ [c] \<and>
         error (startCamera_with strats browser st) = None \<and>
         (\<forall>v. videoRef st = Some v \<longrightarrow>
            videoRef (startCamera_with strats browser st) =
              Some (v\<lparr>srcObject := Some s, onloadedmetadata := True\<rparr>) \<and>
            live (startCamera_with strats browser st) = live st \<union> set (getTracks s)) \<and>
         (videoRef st = None \<longrightarrow>
            videoRef (startCamera_with strats browser st) = None \<and>
            live (startCamera_with strats browser st) = live st - set (getTracks s))"
proof -
  let ?st0 = "st\<lparr>isStreaming := False, error := None\<rparr>"
  from try_strategies_first_success [OF assms(4,5), of post None ?st0]
  obtain le' st1 where t: "try_strategies gum (pre @ c # post) None ?st0 = (Some s, le', st1)"
    and calls: "gum_calls st1 = gum_calls ?st0 @ pre @ [c]" by blast
  from try_strategies_frame [OF t] try_strategies_live [OF t]
  have frame: "videoRef st1 = videoRef st" "live st1 = live st \<union> set (getTracks s)"
    "error st1 = None"
    by simp_all
  have post: "startCamera_with strats browser st =
      (case videoRef st1 of
         Some v \<Rightarrow> st1\<lparr>videoRef := Some (v\<lparr>srcObject := Some s, onloadedmetadata := True\<rparr>)\<rparr>
       | None \<Rightarrow> stopTracks (Some s) st1)"
    using startCamera_with_try [OF assms(1,2), of strats st] t assms(3) by simp
  show ?thesis
    using calls frame by (auto simp: post stopTracks_def fold_stop split: option.splits)
qed

theorem first_success_stops_iteration_witness:
  "gum_calls (startCamera (browser_with (grants stream_a) ''https:'' ''example.org'')
       initial_state) = [\<lparr>video = facingMode ''environment'', audio = False\<rparr>] \<and>
   error (startCamera (browser_with (grants stream_a) ''https:'' ''example.org'')
       initial_state) = None \<and>
   videoRef (startCamera (browser_with (grants stream_a) ''https:'' ''example.org'')
       initial_state) = Some (video0\<lparr>srcObject := Some stream_a, onloadedmetadata := True\<rparr>) \<and>
   live (startCamera (browser_with (grants stream_a) ''https:'' ''example.org'')
       initial_state) = {0} \<and>
   gum_calls (startCamera (browser_with user_only ''https:'' ''example.org'')
       initial_state) =
     [\<lparr>video = facingMode ''environment'', audio = False\<rparr>,
      \<lparr>video = facingMode ''user'', audio = False\<rparr>]"
  using first_success_stops_iteration
      [of "browser_with (grants stream_a) ''https:'' ''example.org''"
          "\<lparr>getUserMedia = Some (grants stream_a)\<rparr>" "grants stream_a"
          strategies "[]" "\<lparr>video = facingMode ''environment'', audio = False\<rparr>"
          "[\<lparr>video = facingMode ''user'', audio = False\<rparr>, \<lparr>video = any_video, audio = False\<rparr>]"
          stream_a initial_state]
    first_success_stops_iteration
      [of "browser_with user_only ''https:'' ''example.org''"
          "\<lparr>getUserMedia = Some user_only\<rparr>" user_only
          strategies "[\<lparr>video = facingMode ''environment'', audio = False\<rparr>]"
          "\<lparr>video = facingMode ''user'', audio = False\<rparr>"
          "[\<lparr>video = any_video, audio = False\<rparr>]"
          stream_b initial_state]
  by (simp add: browser_with_def grants_def user_only_def strategies_def startCamera_def
      initial_state_def stream_a_def)

subsection \<open>Claim C4: no camera API\<close>

text \<open>
  C4. When the capability check of lines 29-32 fails (\<^verbatim>\<open>navigator.mediaDevices\<close> is
  missing, or it has no \<^verbatim>\<open>getUserMedia\<close>), \<open>startCamera\<close> returns at once with the message
  of the unsupported browser: \<^verbatim>\<open>getUserMedia\<close> is never called, nothing is logged, no
  track is opened, the video element is left as it was.
\<close>

theorem no_camera_api_fails_unsupported:
  assumes "mediaDevices (navigator browser) = None \<or>
           (\<exists>md. mediaDevices (navigator browser) = Some md \<and> getUserMedia md = None)"
  shows "error (startCamera_with strats browser st) =
           Some ''Camera API not supported. Please use a modern browser and ensure you are on HTTPS.'' \<and>
         gum_calls (startCamera_with strats browser st) = gum_calls st \<and>
         console (startCamera_with strats browser st) = console st \<and>
         live (startCamera_with strats browser st) = live st \<and>
         videoRef (startCamera_with strats browser st) = videoRef st \<and>
         \<not> isStreaming (startCamera_with strats browser st)"
  using assms by (auto simp: startCamera_with_def not_supported_def)

theorem no_camera_api_fails_unsupported_witness:
  "error (startCamera no_camera_api initial_state) =
     Some ''Camera API not supported. Please use a modern browser and ensure you are on HTTPS.'' \<and>
   gum_calls (startCamera no_camera_api initial_state) = [] \<and>
   console (startCamera no_camera_api initial_state) = [] \<and>
   live (startCamera no_camera_api initial_state) = {}"
  using no_camera_api_fails_unsupported [of no_camera_api strategies initial_state]
  by (simp add: no_camera_api_def initial_state_def startCamera_def)

subsection \<open>Claim C5: the classification of lines 86-98\<close>

text \<open>
  C5. The message depends on \<^verbatim>\<open>err.name\<close> first: permission denied, then no device,
  then device busy, then unsatisfiable constraints, each whatever the page's location.
  The insecure-context message, computed from \<^verbatim>\<open>location\<close> and not from the error, is
  chosen exactly when none of these names matched and the page is neither on
  \<^verbatim>\<open>https:\<close> nor on \<^verbatim>\<open>localhost\<close>; the generic message exactly when none matched and the
  page is on \<^verbatim>\<open>https:\<close> or on \<^verbatim>\<open>localhost\<close>.
\<close>

theorem classification_of_last_error:
  "(err_name err = Some ''NotAllowedError'' \<or> err_name err = Some ''PermissionDeniedError'' \<longrightarrow>
      access_error_message err loc =
        ''Camera permission denied. Please reset permissions for this site in your browser settings.'') \<and>
   (err_name err = Some ''NotFoundError'' \<or> err_name err = Some ''DevicesNotFoundError'' \<longrightarrow>
      access_error_message err loc = ''No camera device found on this device.'') \<and>
   (err_name err = Some ''NotReadableError'' \<or> err_name err = Some ''TrackStartError'' \<longrightarrow>
      access_error_message err loc =
        ''Camera is currently in use by another application. Please close other apps and try again.'') \<and>
   (err_name err = Some ''OverconstrainedError'' \<longrightarrow>
      access_error_message err loc = ''Camera constraints could not be satisfied.'') \<and>
   (access_error_message err loc = ''Camera access requires a secure HTTPS connection.'' \<longleftrightarrow>
      \<not> names_a_cause err \<and> protocol loc \<noteq> ''https:'' \<and> hostname loc \<noteq> ''localhost'') \<and>
   (access_error_message err loc = ''Unable to access camera.'' \<longleftrightarrow>
      \<not> names_a_cause err \<and> \<not> (protocol loc \<noteq> ''https:'' \<and> hostname loc \<noteq> ''localhost''))"
  by (simp add: access_error_message_def names_a_cause_def)

theorem classification_of_last_error_witness:
  "access_error_message (ErrorObject ''NotAllowedError'' []) \<lparr>protocol = ''http:'', hostname = ''example.org''\<rparr> =
     ''Camera permission denied. Please reset permissions for this site in your browser settings.'' \<and>
   access_error_message (ErrorObject ''OverconstrainedError'' []) \<lparr>protocol = ''http:'', hostname = ''example.org''\<rparr> =
     ''Camera constraints could not be satisfied.'' \<and>
   access_error_message (ErrorObject ''AbortError'' []) \<lparr>protocol = ''http:'', hostname = ''example.org''\<rparr> =
     ''Camera access requires a secure HTTPS connection.'' \<and>
   access_error_message (ErrorObject ''AbortError'' []) \<lparr>protocol = ''http:'', hostname = ''localhost''\<rparr> =
     ''Unable to access camera.''"
  using classification_of_last_error
      [of "ErrorObject ''NotAllowedError'' []" "\<lparr>protocol = ''http:'', hostname = ''example.org''\<rparr>"]
    classification_of_last_error
      [of "ErrorObject ''OverconstrainedError'' []" "\<lparr>protocol = ''http:'', hostname = ''example.org''\<rparr>"]
    classification_of_last_error
      [of "ErrorObject ''AbortError'' []" "\<lparr>protocol = ''http:'', hostname = ''example.org''\<rparr>"]
    classification_of_last_error
      [of "ErrorObject ''AbortError'' []" "\<lparr>protocol = ''http:'', hostname = ''localhost''\<rparr>"]
  by (simp add: names_a_cause_def)

subsection \<open>Claim C6: playback that fails after a successful open\<close>

text \<open>
  C6. \<open>startCamera\<close> never leaves the streaming flag set, whether or not a stream was
  opened. With the video element mounted, the metadata handler sets the flag exactly
  when \<^verbatim>\<open>play()\<close> resolves; when \<^verbatim>\<open>play()\<close> rejects the flag stays false and the message
  is the one of line 76, which the classification of lines 86-98 never produces.
\<close>

theorem playback_failure_is_distinct:
  "\<not> isStreaming (startCamera_with strats browser st) \<and>
   (\<forall>v. videoRef st = Some v \<longrightarrow>
      error (loadedmetadata (Some playError) (startCamera_with strats browser st)) =
        Some ''Camera permission granted, but video preview failed to start.'' \<and>
      \<not> isStreaming (loadedmetadata (Some playError) (startCamera_with strats browser st)) \<and>
      isStreaming (loadedmetadata None (startCamera_with strats browser st))) \<and>
   (\<forall>v. videoRef st = Some v \<longrightarrow>
      isStreaming (loadedmetadata play st) = (isStreaming st \<or> play = None)) \<and>
   access_error_message err loc \<noteq>
     ''Camera permission granted, but video preview failed to start.''"
proof -
  have a: "\<not> isStreaming (startCamera_with strats browser st)"
    by (simp add: startCamera_with_isStreaming)
  have b: "videoRef st = Some v \<Longrightarrow>
      error (loadedmetadata (Some playError) (startCamera_with strats browser st)) =
        Some ''Camera permission granted, but video preview failed to start.'' \<and>
      \<not> isStreaming (loadedmetadata (Some playError) (startCamera_with strats browser st)) \<and>
      isStreaming (loadedmetadata None (startCamera_with strats browser st))" for v
  proof -
    assume "videoRef st = Some v"
    then obtain v' where "videoRef (startCamera_with strats browser st) = Some v'"
      using startCamera_with_mounted [of strats browser st] by (cases "videoRef (startCamera_with strats browser st)") auto
    then show ?thesis using a by (simp add: loadedmetadata_def)
  qed
  have c: "videoRef st = Some v \<Longrightarrow>
      isStreaming (loadedmetadata play st) = (isStreaming st \<or> play = None)" for v
    by (simp add: loadedmetadata_def split: option.splits)
  have d: "access_error_message err loc \<noteq>
     ''Camera permission granted, but video preview failed to start.''"
    by (simp add: access_error_message_def)
  from a b c d show ?thesis by blast
qed

theorem playback_failure_is_distinct_witness:
  "error (loadedmetadata (Some (ErrorObject ''NotAllowedError'' []))
      (startCamera (browser_with (grants stream_a) ''https:'' ''example.org'') initial_state)) =
     Some ''Camera permission granted, but video preview failed to start.'' \<and>
   \<not> isStreaming (loadedmetadata (Some (ErrorObject ''NotAllowedError'' []))
      (startCamera (browser_with (grants stream_a) ''https:'' ''example.org'') initial_state)) \<and>
   \<not> isStreaming (startCamera (browser_with (grants stream_a) ''https:'' ''example.org'') initial_state) \<and>
   isStreaming (loadedmetadata None
      (startCamera (browser_with (grants stream_a) ''https:'' ''example.org'') initial_state))"
  using playback_failure_is_distinct
      [of strategies "browser_with (grants stream_a) ''https:'' ''example.org''" initial_state
          "ErrorObject ''NotAllowedError'' []"]
  by (simp add: startCamera_def initial_state_def)

subsection \<open>Claim C7: \<open>stopCamera\<close> twice\<close>




subsection \<open>Claim C8: the empty list of strategies\<close>

text \<open>
  C8 fails on an insecure page. With no strategy, line 63 throws a fresh \<^verbatim>\<open>Error\<close>, whose name matches none of the
  tests of lines 88-95, so that the test of the location on line 96 decides. On a page
  that is neither on \<^verbatim>\<open>https:\<close> nor on \<^verbatim>\<open>localhost\<close> the message is the insecure-context
  one, not the generic one.
\<close>

theorem empty_strategy_list_counterexample:
  "error (startCamera_with [] (browser_with (grants stream_a) ''http:'' ''example.org'') initial_state) =
     Some ''Camera access requires a secure HTTPS connection.'' \<and>
   error (startCamera_with [] (browser_with (grants stream_a) ''http:'' ''example.org'') initial_state) \<noteq>
     Some ''Unable to access camera.''"
  by (simp add: startCamera_with_def browser_with_def initial_state_def access_error_def
      access_error_message_def thrown_value_def new_Error_def)

text \<open>
  C8, amended. With the camera API present and the empty list of strategies,
  \<^verbatim>\<open>getUserMedia\<close> is not called and the message is the generic one when the page is on
  \<^verbatim>\<open>https:\<close> or on \<^verbatim>\<open>localhost\<close>, and the insecure-context one otherwise.
\<close>

theorem empty_strategy_list_message:
  assumes "mediaDevices (navigator browser) = Some md" and "getUserMedia md = Some gum"
  shows "error (startCamera_with [] browser st) =
           Some (if protocol (location browser) \<noteq> ''https:'' \<and>
                    hostname (location browser) \<noteq> ''localhost''
                 then ''Camera access requires a secure HTTPS connection.''
                 else ''Unable to access camera.'') \<and>
         gum_calls (startCamera_with [] browser st) = gum_calls st \<and>
         live (startCamera_with [] browser st) = live st \<and>
         videoRef (startCamera_with [] browser st) = videoRef st"
  using assms
  by (simp add: startCamera_with_def access_error_def access_error_message_def
      thrown_value_def new_Error_def)

theorem empty_strategy_list_message_witness:
  "error (startCamera_with [] (browser_with (grants stream_a) ''https:'' ''example.org'') initial_state) =
     Some ''Unable to access camera.'' \<and>
   error (startCamera_with [] (browser_with (grants stream_a) ''http:'' ''localhost'') initial_state) =
     Some ''Unable to access camera.'' \<and>
   gum_calls (startCamera_with [] (browser_with (grants stream_a) ''https:'' ''example.org'') initial_state) = []"
  using empty_strategy_list_message
      [of "browser_with (grants stream_a) ''https:'' ''example.org''"
          "\<lparr>getUserMedia = Some (grants stream_a)\<rparr>" "grants stream_a" initial_state]
    empty_strategy_list_message
      [of "browser_with (grants stream_a) ''http:'' ''localhost''"
          "\<lparr>getUserMedia = Some (grants stream_a)\<rparr>" "grants stream_a" initial_state]
  by (simp add: browser_with_def initial_state_def)

subsection \<open>Claim C9: a failing analysis\<close>

text \<open>
  C9 does not hold of the code. The \<^verbatim>\<open>catch\<close> of line 165 does surface the failure,
  and \<open>captureAndAnalyze\<close> itself writes neither the video element nor the tracks
  (\<open>captureAndAnalyze_catches_failure\<close>). But \<^verbatim>\<open>error\<close> is a dependency of the effect
  (line 136): the render that shows the message runs the cleanup of the effect, whose
  \<open>stopCamera\<close> (line 133) stops the tracks, detaches the stream and resets the streaming
  flag, and arms the timer again. In the run below the component streams (one stream
  attached, its track live, the flag set); a capture whose analysis fails leaves the
  message with no stream attached, no live track and the flag reset; and the timer that
  was armed acquires again and erases the message.
\<close>

theorem analysis_failure_stops_stream:
  "map_option attached_tracks (run 
      [Timer_fired browser_a, Loaded_metadata None] initial_state) = Some {0} \<and>
   map_option live (run 
      [Timer_fired browser_a, Loaded_metadata None] initial_state) = Some {0} \<and>
   map_option isStreaming (run 
      [Timer_fired browser_a, Loaded_metadata None] initial_state) = Some True \<and>
   map_option error (run 
      [Timer_fired browser_a, Loaded_metadata None, Capture_clicked props0 failing_service] initial_state) = Some (Some ''quota exceeded'') \<and>
   map_option has_srcObject (run 
      [Timer_fired browser_a, Loaded_metadata None, Capture_clicked props0 failing_service] initial_state) = Some False \<and>
   map_option live (run 
      [Timer_fired browser_a, Loaded_metadata None, Capture_clicked props0 failing_service] initial_state) = Some {} \<and>
   map_option isStreaming (run 
      [Timer_fired browser_a, Loaded_metadata None, Capture_clicked props0 failing_service] initial_state) = Some False \<and>
   map_option timer (run 
      [Timer_fired browser_a, Loaded_metadata None, Capture_clicked props0 failing_service] initial_state) = Some True \<and>
   map_option error (run 
      [Timer_fired browser_a, Loaded_metadata None, Capture_clicked props0 failing_service,
        Timer_fired browser_b] initial_state) = Some None"
proof -
  have s: "map_option attached_tracks (run 
      [Timer_fired browser_a, Loaded_metadata None] initial_state) = Some {0}"
    "map_option live (run 
      [Timer_fired browser_a, Loaded_metadata None] initial_state) = Some {0}"
    "map_option isStreaming (run 
      [Timer_fired browser_a, Loaded_metadata None] initial_state) = Some True"
    by (simp_all add: run_defs)
  have f: "map_option error (run 
      [Timer_fired browser_a, Loaded_metadata None, Capture_clicked props0 failing_service] initial_state) = Some (Some ''quota exceeded'')"
    "map_option has_srcObject (run 
      [Timer_fired browser_a, Loaded_metadata None, Capture_clicked props0 failing_service] initial_state) = Some False"
    "map_option live (run 
      [Timer_fired browser_a, Loaded_metadata None, Capture_clicked props0 failing_service] initial_state) = Some {}"
    "map_option isStreaming (run 
      [Timer_fired browser_a, Loaded_metadata None, Capture_clicked props0 failing_service] initial_state) = Some False"
    "map_option timer (run 
      [Timer_fired browser_a, Loaded_metadata None, Capture_clicked props0 failing_service] initial_state) = Some True"
    by (simp_all add: run_defs cap_defs)
  have g: "map_option error (run 
      [Timer_fired browser_a, Loaded_metadata None, Capture_clicked props0 failing_service,
        Timer_fired browser_b] initial_state) = Some None"
    by (simp add: run_defs cap_defs)
  from s f g show ?thesis by simp
qed

subsection \<open>Claim C10: the analyzing flag and the 2d context\<close>

text \<open>
  C10. With both refs attached, line 141 sets the analyzing flag before anything is
  awaited, and the call ends with the flag reset exactly when the canvas gave a 2d
  context (whatever the analysis service and the callback do). Without a context the
  call only sets the flag; the capture button is then disabled, and it stays disabled
  with the flag set in every state the component reaches afterwards, since no other
  handler writes the flag and the disabled button starts no capture.
\<close>

theorem analyzing_reset_iff_context:
  assumes "videoRef st = Some v" and "canvasRef st = Some c"
  shows "analyzing (fst (capture_begin env st)) \<and>
         (\<not> analyzing (captureAndAnalyze props env st) \<longleftrightarrow> context2d c) \<and>
         (\<not> context2d c \<longrightarrow>
            captureAndAnalyze props env st = st\<lparr>analyzing := True\<rparr> \<and>
            capture_disabled (captureAndAnalyze props env st) \<and>
            (\<forall>st'. steps (captureAndAnalyze props env st) st' \<longrightarrow>
               analyzing st' \<and> capture_disabled st'))"
proof -
  have a: "analyzing (fst (capture_begin env st))"
    using assms by (simp add: capture_begin_def Let_def)
  have b: "\<not> analyzing (captureAndAnalyze props env st) \<longleftrightarrow> context2d c"
    using assms by (simp add: captureAndAnalyze_def capture_begin_def capture_resume_def Let_def)
  have c: "captureAndAnalyze props env st = st\<lparr>analyzing := True\<rparr>" if "\<not> context2d c"
    using assms that by (simp add: captureAndAnalyze_def capture_begin_def)
  have d: "analyzing st' \<and> capture_disabled st'"
    if "\<not> context2d c" "steps (captureAndAnalyze props env st) st'" for st'
  proof -
    from that(1) b have "analyzing (captureAndAnalyze props env st)" by simp
    from steps_keep_analyzing [OF that(2) this] show ?thesis
      by (simp add: capture_disabled_def)
  qed
  from a b c d show ?thesis by (auto simp: capture_disabled_def)
qed

theorem analyzing_reset_iff_context_witness:
  "analyzing (fst (capture_begin answering_service streaming_a)) \<and>
   \<not> analyzing (captureAndAnalyze props0 answering_service streaming_a) \<and>
   \<not> analyzing (captureAndAnalyze props0 failing_service streaming_a) \<and>
   analyzing (captureAndAnalyze props0 answering_service
      (streaming_a\<lparr>canvasRef := Some canvas_without_context\<rparr>)) \<and>
   capture_disabled (captureAndAnalyze props0 answering_service
      (streaming_a\<lparr>canvasRef := Some canvas_without_context\<rparr>)) \<and>
   analyzing (startCamera_rendered None browser_b
      ((captureAndAnalyze props0 answering_service
         (streaming_a\<lparr>canvasRef := Some canvas_without_context\<rparr>))\<lparr>timer := False\<rparr>))"
proof -
  let ?st = "streaming_a\<lparr>canvasRef := Some canvas_without_context\<rparr>"
  let ?post = "captureAndAnalyze props0 answering_service ?st"
  have v: "videoRef streaming_a = Some (video0\<lparr>srcObject := Some stream_a, onloadedmetadata := True\<rparr>)"
    and c: "canvasRef streaming_a = Some canvas0"
    by (simp_all add: streaming_a_eq)
  have v': "videoRef ?st = Some (video0\<lparr>srcObject := Some stream_a, onloadedmetadata := True\<rparr>)"
    and c': "canvasRef ?st = Some canvas_without_context"
    by (simp_all add: streaming_a_eq)
  have nc: "\<not> context2d canvas_without_context" and yc: "context2d canvas0"
    by (simp_all add: canvas_without_context_def canvas0_def)
  have m: "mounted ?post" "timer ?post" "error ?post = None"
    by (simp_all add: captureAndAnalyze_def capture_begin_def streaming_a_eq
        canvas_without_context_def canvas0_def)
  have s: "steps ?post (startCamera_rendered None browser_b (?post\<lparr>timer := False\<rparr>))"
    by (rule steps_fire [OF steps_refl, of "Timer_fired browser_b"]) (simp add: m)
  from analyzing_reset_iff_context [OF v c, of answering_service props0]
    analyzing_reset_iff_context [OF v c, of failing_service props0]
    analyzing_reset_iff_context [OF v' c', of answering_service props0]
    nc yc s
  show ?thesis by blast
qed

end
